theory Spec2Isabelle
  imports Complex_Main "HOL-Library.Product_Lexorder"
begin

section \<open>Values: dates, times and timestamps\<close>

text \<open>
  The notebook \<^verbatim>\<open>temps.ipynb\<close> works with Python's \<^verbatim>\<open>datetime.date\<close>,
  \<^verbatim>\<open>datetime.time\<close> and \<^verbatim>\<open>datetime.datetime\<close>. They are modelled by their fields.
  Python only constructs objects whose fields are in range; that range is the predicate
  \<open>valid_time\<close> below (for the time of day, the only part whose range matters here).
\<close>

record date =
  year :: nat
  month :: nat
  day :: nat

record time =
  hour :: nat
  minute :: nat
  second :: nat
  microsecond :: nat

record datetime =
  date_of :: date
  time_of :: time

definition valid_time :: "time \<Rightarrow> bool" where
  "valid_time t \<longleftrightarrow> hour t \<le> 23 \<and> minute t \<le> 59 \<and> second t \<le> 59 \<and> microsecond t \<le> 999999"

text \<open>\<^verbatim>\<open>time.min\<close> is 00:00:00.000000 and \<^verbatim>\<open>time.max\<close> is 23:59:59.999999.\<close>

definition time_min :: time where
  "time_min = \<lparr>hour = 0, minute = 0, second = 0, microsecond = 0\<rparr>"

definition time_max :: time where
  "time_max = \<lparr>hour = 23, minute = 59, second = 59, microsecond = 999999\<rparr>"

text \<open>\<^verbatim>\<open>datetime.combine(d, t)\<close>.\<close>

definition combine :: "date \<Rightarrow> time \<Rightarrow> datetime" where
  "combine d t = \<lparr>date_of = d, time_of = t\<rparr>"

text \<open>
  Timestamps are ordered field by field, from the year down to the microsecond. This is
  the order of Python's \<^verbatim>\<open>datetime\<close>, and also the order in which the store compares
  them: the \<^verbatim>\<open>DateTime\<close> column of an SQLite table holds the fixed-width, zero-padded text
  \<^verbatim>\<open>YYYY-MM-DD HH:MM:SS.ffffff\<close>, compared as text.
\<close>

definition date_key :: "date \<Rightarrow> nat \<times> nat \<times> nat" where
  "date_key d = (year d, month d, day d)"

definition time_key :: "time \<Rightarrow> nat \<times> nat \<times> nat \<times> nat" where
  "time_key t = (hour t, minute t, second t, microsecond t)"

definition datetime_key :: "datetime \<Rightarrow> (nat \<times> nat \<times> nat) \<times> (nat \<times> nat \<times> nat \<times> nat)" where
  "datetime_key x = (date_key (date_of x), time_key (time_of x))"

definition datetime_le :: "datetime \<Rightarrow> datetime \<Rightarrow> bool" where
  "datetime_le a b \<longleftrightarrow> datetime_key a \<le> datetime_key b"

text \<open>SQL's \<^verbatim>\<open>x BETWEEN lo AND hi\<close>: both bounds are inclusive.\<close>

definition between :: "datetime \<Rightarrow> datetime \<Rightarrow> datetime \<Rightarrow> bool" where
  "between x lo hi \<longleftrightarrow> datetime_le lo x \<and> datetime_le x hi"

section \<open>The schema catalog and the database\<close>

text \<open>
  The two tables of the \<^verbatim>\<open>MetaData\<close> catalog (source lines 71 to 90). A row holds what
  the store holds: every column except the primary key can hold NULL at the storage
  level, so those columns are options; the \<^verbatim>\<open>NOT NULL\<close> of \<^verbatim>\<open>temps.ts\<close> is a constraint
  that the INSERT checks (see \<open>execute_insert\<close>), not a property of the row type.
  A \<^verbatim>\<open>Float\<close> column holds a double, modelled as the real number it denotes (the
  conversion of what the program passes is part of \<open>execute_insert\<close>).
\<close>

record feeders_row =
  feeders_id :: int
  feeders_name :: "string option"
  feeders_lat :: "real option"
  feeders_long :: "real option"

record temps_row =
  temps_id :: int
  temps_feeder_id :: "int option"
  temps_ts :: "datetime option"
  temps_celsius :: "real option"
  temps_condition :: "string option"

text \<open>
  The database file \<^verbatim>\<open>temps.db\<close>: each table of the catalog is either absent (\<open>None\<close>)
  or present with its rows, in insertion order.
\<close>

record db =
  feeders_tbl :: "feeders_row list option"
  temps_tbl :: "temps_row list option"

definition empty_db :: db where
  "empty_db = \<lparr>feeders_tbl = None, temps_tbl = None\<rparr>"

definition temps_rows :: "db \<Rightarrow> temps_row list" where
  "temps_rows d = (case temps_tbl d of None \<Rightarrow> [] | Some rows \<Rightarrow> rows)"

definition feeders_rows :: "db \<Rightarrow> feeders_row list" where
  "feeders_rows d = (case feeders_tbl d of None \<Rightarrow> [] | Some rows \<Rightarrow> rows)"

definition table_names :: "db \<Rightarrow> string set" where
  "table_names d =
     (if feeders_tbl d = None then {} else {''feeders''}) \<union>
     (if temps_tbl d = None then {} else {''temps''})"

text \<open>
  The exceptions that reach the caller, named as Python names them, with their message.
  \<open>OperationalError\<close>, \<open>IntegrityError\<close> and \<open>StatementError\<close> are SQLAlchemy's;
  \<open>OverflowError\<close> is the built-in exception that the \<^verbatim>\<open>sqlite3\<close> driver raises when
  it is given an integer that SQLite cannot hold.
\<close>

datatype error =
    OperationalError string
  | IntegrityError string
  | OverflowError string
  | StatementError string

section \<open>Numbers: what the store can hold\<close>

text \<open>
  An SQLite \<^verbatim>\<open>INTEGER\<close> is a signed 64-bit integer, while a Python \<^verbatim>\<open>int\<close> is
  unbounded: the driver refuses to bind an \<^verbatim>\<open>int\<close> outside this range.
\<close>

definition int64 :: "int \<Rightarrow> bool" where
  "int64 i \<longleftrightarrow> - (2 ^ 63) \<le> i \<and> i < 2 ^ 63"

text \<open>
  A number given as a temperature: a Python number by the real it denotes, or the float
  \<^verbatim>\<open>nan\<close>. (Infinite floats are not modelled.)
\<close>

datatype number = Finite real | NaN

text \<open>
  An SQLite \<^verbatim>\<open>FLOAT\<close> column holds IEEE 754 doubles. \<open>nearest_double r\<close> is the double
  nearest to \<open>r\<close>, ties going to the even significand: \<open>exponent r\<close> is the binary
  exponent of \<open>r\<close> (not below that of the subnormal numbers), \<open>ulp r\<close> the distance
  between neighbouring doubles at that exponent (a significand has 53 bits).
\<close>

definition round_half_even :: "real \<Rightarrow> int" where
  "round_half_even q =
     (let n = \<lfloor>q\<rfloor>; d = q - of_int n
      in if d < 1 / 2 then n else if 1 / 2 < d then n + 1 else if even n then n else n + 1)"

definition exponent :: "real \<Rightarrow> int" where
  "exponent r = max \<lfloor>log 2 \<bar>r\<bar>\<rfloor> (- 1022)"

definition ulp :: "real \<Rightarrow> real" where
  "ulp r = 2 powi (exponent r - 52)"

definition nearest_double :: "real \<Rightarrow> real" where
  "nearest_double r = (if r = 0 then 0 else of_int (round_half_even (r / ulp r)) * ulp r)"

text \<open>
  The values that a Python \<^verbatim>\<open>float\<close> holds: \<^verbatim>\<open>nan\<close> and the finite doubles.
\<close>

definition is_float :: "number \<Rightarrow> bool" where
  "is_float v \<longleftrightarrow> (case v of NaN \<Rightarrow> True | Finite r \<Rightarrow> nearest_double r = r \<and> \<bar>r\<bar> < 2 ^ 1024)"

text \<open>
  SQLAlchemy's \<^verbatim>\<open>Float\<close> type passes a bound value through Python's \<^verbatim>\<open>float(value)\<close>
  before the driver sees it (the bind processor \<^verbatim>\<open>to_float\<close> of its numeric types, used
  for every dialect without native decimals, SQLite among them). \<^verbatim>\<open>float\<close> leaves a
  float as it is, rounds an \<^verbatim>\<open>int\<close> to the nearest double, and raises \<^verbatim>\<open>OverflowError\<close>
  when that is beyond the largest double; SQLAlchemy reports an exception raised while
  it prepares the parameters as a \<open>StatementError\<close>. \<^verbatim>\<open>None\<close> is passed on as it is.
\<close>

definition to_float :: "number option \<Rightarrow> error + number option" where
  "to_float value =
     (case value of
        None \<Rightarrow> Inr None
      | Some NaN \<Rightarrow> Inr (Some NaN)
      | Some (Finite r) \<Rightarrow>
          if 2 ^ 1024 \<le> \<bar>nearest_double r\<bar>
          then Inl (StatementError ''(builtins.OverflowError) int too large to convert to float'')
          else Inr (Some (Finite (nearest_double r))))"

text \<open>What SQLite stores for a bound float: the double, and NULL for \<^verbatim>\<open>nan\<close>.\<close>

definition sqlite_real :: "number option \<Rightarrow> real option" where
  "sqlite_real value = (case value of None \<Rightarrow> None | Some NaN \<Rightarrow> None | Some (Finite r) \<Rightarrow> Some r)"

section \<open>Connections and transactions\<close>

text \<open>
  A connection handed out by the engine of source line 44
  (\<^verbatim>\<open>sa.create_engine("sqlite:///temps.db", echo=True, future=True)\<close>). It works inside
  a transaction: \<open>snapshot\<close> is the database as last committed, \<open>current\<close> the database
  as the statements of the transaction see and change it. \<open>foreign_keys\<close> is SQLite's
  per-connection \<^verbatim>\<open>PRAGMA foreign_keys\<close>; a new connection starts with it off, and the
  notebook never turns it on (there is no pragma and no connect-event hook anywhere).
\<close>

record conn =
  snapshot :: db
  current :: db
  foreign_keys :: bool

definition connect :: "db \<Rightarrow> conn" where
  "connect d = \<lparr>snapshot = d, current = d, foreign_keys = False\<rparr>"

definition commit :: "conn \<Rightarrow> db" where
  "commit c = current c"

definition rollback :: "conn \<Rightarrow> db" where
  "rollback c = snapshot c"

text \<open>
  \<^verbatim>\<open>with engine.begin() as conn: body\<close>: the transaction is committed when the body
  completes normally, rolled back when it raises, and the exception propagates.
\<close>

definition engine_begin :: "db \<Rightarrow> (conn \<Rightarrow> error + conn) \<Rightarrow> (error + unit) \<times> db" where
  "engine_begin d body =
     (let c = connect d in
      case body c of
        Inl e \<Rightarrow> (Inl e, rollback c)
      | Inr c' \<Rightarrow> (Inr (), commit c'))"

text \<open>
  \<^verbatim>\<open>with engine.connect() as conn: return body\<close>: nothing commits; leaving the block
  closes the connection, which rolls its transaction back (the \<^verbatim>\<open>ROLLBACK\<close> of the
  log shown in the notebook).
\<close>

definition engine_connect :: "db \<Rightarrow> (conn \<Rightarrow> error + 'a) \<Rightarrow> (error + 'a) \<times> db" where
  "engine_connect d body = (let c = connect d in (body c, rollback c))"

section \<open>Applying the catalog: \<^verbatim>\<open>metadata.create_all(engine)\<close>\<close>

text \<open>
  Source line 107. As the log in the notebook shows, it asks the store about each table
  of the catalog (\<^verbatim>\<open>PRAGMA main.table_info\<close>), issues \<^verbatim>\<open>CREATE TABLE\<close> for those that
  are missing, and commits.
\<close>

definition metadata :: "string list" where
  "metadata = [''feeders'', ''temps'']"

definition has_table :: "conn \<Rightarrow> string \<Rightarrow> bool" where
  "has_table c name \<longleftrightarrow> name \<in> table_names (current c)"

definition create_table :: "string \<Rightarrow> conn \<Rightarrow> conn" where
  "create_table name c =
     (if name = ''feeders'' then c\<lparr>current := (current c)\<lparr>feeders_tbl := Some []\<rparr>\<rparr>
      else if name = ''temps'' then c\<lparr>current := (current c)\<lparr>temps_tbl := Some []\<rparr>\<rparr>
      else c)"

definition create_all :: "db \<Rightarrow> db" where
  "create_all d =
     (let c = connect d;
          missing = filter (\<lambda>name. \<not> has_table c name) metadata
      in commit (fold create_table missing c))"

section \<open>Ingest: \<^verbatim>\<open>store_packet\<close>\<close>

text \<open>
  The payload \<^verbatim>\<open>data\<close> of \<^verbatim>\<open>store_packet(feeder_id, data)\<close>: a dict with the keys
  \<^verbatim>\<open>ts\<close>, \<^verbatim>\<open>celsius\<close> and \<^verbatim>\<open>condition\<close>, as in the call of source line 170, bound to
  a \<^verbatim>\<open>datetime\<close>, a number and a \<^verbatim>\<open>str\<close>. A key that is absent and a key bound to
  \<^verbatim>\<open>None\<close> both leave the column NULL, so both are \<open>None\<close>. Dicts with other keys or with
  values of other types are not modelled.
\<close>

record packet =
  ts :: "datetime option"
  celsius :: "number option"
  condition :: "string option"

text \<open>
  The primary key that SQLite gives a row inserted without one: one more than the
  largest in use, or 1 in an empty table. (Were the largest key \<open>2 ^ 63 - 1\<close>, SQLite
  would pick an unused key at random; the program, which never chooses a key, cannot
  reach such a table, and no property below speaks of the key.)
\<close>

definition next_id :: "temps_row list \<Rightarrow> int" where
  "next_id rows = (if rows = [] then 1 else fold max (map temps_id rows) (temps_id (hd rows)) + 1)"

definition feeder_exists :: "db \<Rightarrow> int \<Rightarrow> bool" where
  "feeder_exists d fid \<longleftrightarrow> fid \<in> set (map feeders_id (feeders_rows d))"

text \<open>
  \<^verbatim>\<open>conn.execute(temps.insert(), dict(feeder_id=feeder_id, **data))\<close> (source line 158),
  in the order in which things can go wrong. SQLAlchemy first prepares the parameters
  (\<open>to_float\<close> for \<^verbatim>\<open>celsius\<close>). The driver then compiles the statement, which fails when
  the table does not exist, and binds the parameters, which fails when \<open>feeder_id\<close> is not
  an \<open>int64\<close>. SQLite then runs the statement, which fails when \<^verbatim>\<open>ts\<close> is NULL
  (\<^verbatim>\<open>nullable=False\<close>, source line 87). The \<^verbatim>\<open>FOREIGN KEY\<close> clause of source line 86 is
  checked by SQLite only on a connection whose \<open>foreign_keys\<close> pragma is on.
\<close>

definition execute_insert :: "int \<Rightarrow> packet \<Rightarrow> conn \<Rightarrow> error + conn" where
  "execute_insert feeder_id data c =
     (case to_float (celsius data) of
        Inl e \<Rightarrow> Inl e
      | Inr value \<Rightarrow>
         (case temps_tbl (current c) of
            None \<Rightarrow> Inl (OperationalError ''no such table: temps'')
          | Some rows \<Rightarrow>
              if \<not> int64 feeder_id
                then Inl (OverflowError ''Python int too large to convert to SQLite INTEGER'')
              else if ts data = None
                then Inl (IntegrityError ''NOT NULL constraint failed: temps.ts'')
              else if foreign_keys c \<and> \<not> feeder_exists (current c) feeder_id
                then Inl (IntegrityError ''FOREIGN KEY constraint failed'')
              else Inr (c\<lparr>current := (current c)\<lparr>temps_tbl := Some (rows @
                     [\<lparr>temps_id = next_id rows, temps_feeder_id = Some feeder_id,
                       temps_ts = ts data, temps_celsius = sqlite_real value,
                       temps_condition = condition data\<rparr>])\<rparr>\<rparr>)))"

text \<open>Source lines 156 to 159.\<close>

definition store_packet :: "db \<Rightarrow> int \<Rightarrow> packet \<Rightarrow> (error + unit) \<times> db" where
  "store_packet d feeder_id data = engine_begin d (execute_insert feeder_id data)"

section \<open>Query: \<^verbatim>\<open>low_by_date\<close>\<close>

text \<open>
  The \<^verbatim>\<open>WHERE\<close> clause of source lines 191 to 197:
  \<^verbatim>\<open>temps.feeder_id = ? AND temps.ts BETWEEN ? AND ?\<close>. A comparison with NULL is
  not true, so a row whose \<^verbatim>\<open>feeder_id\<close> or \<^verbatim>\<open>ts\<close> is NULL is not selected.
\<close>

definition where_clause :: "int \<Rightarrow> datetime \<Rightarrow> datetime \<Rightarrow> temps_row \<Rightarrow> bool" where
  "where_clause feeder lo hi r \<longleftrightarrow>
     temps_feeder_id r = Some feeder \<and>
     (case temps_ts r of None \<Rightarrow> False | Some x \<Rightarrow> between x lo hi)"

text \<open>
  SQL's aggregate \<^verbatim>\<open>min\<close>: it runs over the selected rows, skips NULL, and yields
  NULL when it has seen no value.
\<close>

fun min_step :: "real option \<Rightarrow> real option \<Rightarrow> real option" where
  "min_step acc None = acc"
| "min_step None (Some v) = Some v"
| "min_step (Some a) (Some v) = Some (min a v)"

definition func_min :: "real option list \<Rightarrow> real option" where
  "func_min vs = foldl min_step None vs"

text \<open>
  \<^verbatim>\<open>conn.execute(query).scalar()\<close>. The driver compiles the statement, which fails when
  the table does not exist, and binds the parameters, which fails when \<open>feeder\<close> is not an
  \<open>int64\<close>. The aggregate query then yields exactly one row with one column, which
  \<^verbatim>\<open>scalar()\<close> returns; NULL arrives as Python's \<^verbatim>\<open>None\<close>.
\<close>

definition execute_select_min :: "int \<Rightarrow> datetime \<Rightarrow> datetime \<Rightarrow> conn \<Rightarrow> error + real option" where
  "execute_select_min feeder lo hi c =
     (case temps_tbl (current c) of
        None \<Rightarrow> Inl (OperationalError ''no such table: temps'')
      | Some rows \<Rightarrow>
          if \<not> int64 feeder
            then Inl (OverflowError ''Python int too large to convert to SQLite INTEGER'')
          else Inr (func_min (map temps_celsius (filter (where_clause feeder lo hi) rows))))"

text \<open>
  Source lines 189 to 199. \<^verbatim>\<open>date.today()\<close> is called twice, once for each bound;
  \<open>today1\<close> and \<open>today2\<close> are what the two calls return. A \<^verbatim>\<open>date\<close> object is always
  truthy, so \<^verbatim>\<open>ts_start or date.today()\<close> is \<^verbatim>\<open>ts_start\<close> unless that is \<^verbatim>\<open>None\<close>.
\<close>

definition low_by_date :: "db \<Rightarrow> date \<Rightarrow> date \<Rightarrow> int \<Rightarrow> date option \<Rightarrow> (error + real option) \<times> db" where
  "low_by_date d today1 today2 feeder ts_start =
     engine_connect d (execute_select_min feeder
       (combine (case ts_start of None \<Rightarrow> today1 | Some x \<Rightarrow> x) time_min)
       (combine (case ts_start of None \<Rightarrow> today2 | Some x \<Rightarrow> x) time_max))"

section \<open>Notions used to state the properties\<close>

text \<open>The values of a column that are not NULL.\<close>

definition non_null :: "'a option list \<Rightarrow> 'a set" where
  "non_null vs = {c. Some c \<in> set vs}"

text \<open>
  The specification's reading of the query, in its own words: the celsius values of the
  stored readings whose feeder is \<open>f\<close> and whose timestamp falls within the inclusive
  bounds from the start of day \<open>x\<close> to the end of day \<open>x\<close>.
\<close>

definition start_of_day :: "date \<Rightarrow> datetime" where
  "start_of_day x = \<lparr>date_of = x, time_of = \<lparr>hour = 0, minute = 0, second = 0, microsecond = 0\<rparr>\<rparr>"

definition end_of_day :: "date \<Rightarrow> datetime" where
  "end_of_day x =
     \<lparr>date_of = x, time_of = \<lparr>hour = 23, minute = 59, second = 59, microsecond = 999999\<rparr>\<rparr>"

definition celsius_values :: "db \<Rightarrow> int \<Rightarrow> date \<Rightarrow> real set" where
  "celsius_values d f x =
     {c. \<exists>r \<in> set (temps_rows d).
           temps_feeder_id r = Some f \<and>
           (\<exists>t. temps_ts r = Some t \<and> datetime_le (start_of_day x) t \<and> datetime_le t (end_of_day x)) \<and>
           temps_celsius r = Some c}"

text \<open>
  The calendar day after \<open>D\<close>, as Python's \<^verbatim>\<open>D + timedelta(days=1)\<close> computes it
  (\<open>None\<close> stands for the \<^verbatim>\<open>OverflowError\<close> after 9999-12-31). The notebook does not
  compute it; the day-boundary property is stated with it.
\<close>

definition is_leap :: "nat \<Rightarrow> bool" where
  "is_leap y \<longleftrightarrow> y mod 4 = 0 \<and> (y mod 100 \<noteq> 0 \<or> y mod 400 = 0)"

definition days_in_month :: "nat \<Rightarrow> nat \<Rightarrow> nat" where
  "days_in_month y m =
     (if m = 2 then (if is_leap y then 29 else 28)
      else if m = 4 \<or> m = 6 \<or> m = 9 \<or> m = 11 then 30 else 31)"

definition next_day :: "date \<Rightarrow> date option" where
  "next_day D =
     (if day D < days_in_month (year D) (month D) then Some (D\<lparr>day := day D + 1\<rparr>)
      else if month D < 12 then Some (D\<lparr>month := month D + 1, day := 1\<rparr>)
      else if year D < 9999 then Some \<lparr>year = year D + 1, month = 1, day = 1\<rparr>
      else None)"

text \<open>
  The database states that the program's operations produce, starting from a database
  file without tables.
\<close>

inductive reachable :: "db \<Rightarrow> bool" where
  reachable_empty: "reachable empty_db"
| reachable_create_all: "reachable d \<Longrightarrow> reachable (create_all d)"
| reachable_store_packet: "reachable d \<Longrightarrow> reachable (snd (store_packet d feeder_id data))"
| reachable_low_by_date:
    "reachable d \<Longrightarrow> reachable (snd (low_by_date d today1 today2 feeder ts_start))"

text \<open>The two halves of the invariant of the data model, as checks on a database.\<close>

definition ts_not_null :: "db \<Rightarrow> bool" where
  "ts_not_null d \<longleftrightarrow> list_all (\<lambda>r. temps_ts r \<noteq> None) (temps_rows d)"

definition references_one_feeder :: "db \<Rightarrow> bool" where
  "references_one_feeder d \<longleftrightarrow>
     list_all (\<lambda>r. length (filter (\<lambda>f. temps_feeder_id r = Some (feeders_id f)) (feeders_rows d)) = 1)
       (temps_rows d)"

subsection \<open>Concrete inputs\<close>

text \<open>
  The call of source line 170,
  \<^verbatim>\<open>store_packet(1, dict(ts=datetime.now(), celsius=24.5, condition="overcast"))\<close>,
  with a fixed reading of the clock, on the database that \<open>create_all\<close> has just made.
\<close>

definition a_day :: date where
  "a_day = \<lparr>year = 2023, month = 1, day = 31\<rparr>"

definition a_time :: time where
  "a_time = \<lparr>hour = 10, minute = 30, second = 15, microsecond = 250000\<rparr>"

definition notebook_packet :: packet where
  "notebook_packet =
     \<lparr>ts = Some (combine a_day a_time), celsius = Some (Finite 24.5),
      condition = Some ''overcast''\<rparr>"

definition fresh_db :: db where
  "fresh_db = create_all empty_db"

text \<open>A reading of feeder \<open>f\<close> at time \<open>t\<close>, with primary key \<open>i\<close> and temperature \<open>c\<close>.\<close>

definition a_row :: "int \<Rightarrow> int \<Rightarrow> datetime \<Rightarrow> real option \<Rightarrow> temps_row" where
  "a_row i f t c =
     \<lparr>temps_id = i, temps_feeder_id = Some f, temps_ts = Some t, temps_celsius = c,
      temps_condition = None\<rparr>"

text \<open>The database after that call.\<close>

definition stored_db :: db where
  "stored_db =
     \<lparr>feeders_tbl = Some [],
      temps_tbl = Some [\<lparr>temps_id = 1, temps_feeder_id = Some 1,
        temps_ts = Some (combine a_day a_time), temps_celsius = Some 24.5,
        temps_condition = Some ''overcast''\<rparr>]\<rparr>"


definition half_db :: db where
  "half_db = \<lparr>feeders_tbl = None, temps_tbl = Some [a_row 1 1 (combine a_day a_time) None]\<rparr>"

text \<open>A time of day within the last second before midnight, and the day after \<open>a_day\<close>.\<close>

definition last_second :: "nat \<Rightarrow> time" where
  "last_second us = \<lparr>hour = 23, minute = 59, second = 59, microsecond = us\<rparr>"

definition next_of_a_day :: date where
  "next_of_a_day = \<lparr>year = 2023, month = 2, day = 1\<rparr>"

text \<open>
  A reading at \<open>a_time\<close> on \<open>a_day\<close> with the temperature \<open>v\<close>; the least integer beyond
  the store's integers, \<open>2 ^ 63\<close>; and an integer that no double represents, \<open>2 ^ 53 + 3\<close>.
\<close>

definition a_packet :: "number option \<Rightarrow> packet" where
  "a_packet v = \<lparr>ts = Some (combine a_day a_time), celsius = v, condition = None\<rparr>"

definition too_large :: int where
  "too_large = 9223372036854775808"

definition no_double :: real where
  "no_double = 9007199254740995"

section \<open>Doubles\<close>

lemma round_half_even_of_int: "round_half_even (of_int n) = n"
  by (simp add: round_half_even_def)

lemma exponent_eq:
  assumes "2 ^ k \<le> \<bar>r\<bar>" and "\<bar>r\<bar> < 2 ^ Suc k"
  shows "exponent r = int k"
proof -
  have "(0::real) < 2 ^ k" by simp
  then have pos: "0 < \<bar>r\<bar>" using assms(1) by linarith
  have "2 powr real_of_int (int k) \<le> \<bar>r\<bar> \<and> \<bar>r\<bar> < 2 powr real_of_int (int k + 1)"
    using assms by (simp add: powr_realpow powr_add)
  then have "\<lfloor>log 2 \<bar>r\<bar>\<rfloor> = int k" using pos by (simp add: floor_log_eq_powr_iff)
  then show ?thesis by (simp add: exponent_def)
qed

text \<open>A number with at most 53 significant bits is its own nearest double.\<close>

lemma nearest_double_exact:
  assumes "2 ^ k \<le> \<bar>r\<bar>" and "\<bar>r\<bar> < 2 ^ Suc k" and "k \<le> 52"
      and "r * 2 ^ (52 - k) = of_int n"
  shows "nearest_double r = r"
proof -
  have "(0::real) < 2 ^ k" by simp
  with assms(1) have "0 < \<bar>r\<bar>" by linarith
  then have nz: "r \<noteq> 0" by simp
  have eq: "int k - 52 = - int (52 - k)" using assms(3) by linarith
  have "ulp r = 2 powi (int k - 52)"
    by (simp only: ulp_def exponent_eq [OF assms(1,2)])
  also have "\<dots> = 2 powi (- int (52 - k))" by (simp only: eq)
  also have "\<dots> = 1 / 2 ^ (52 - k)" by (simp only: power_int_minus_divide power_int_of_nat)
  finally have u: "ulp r = 1 / 2 ^ (52 - k)" .
  have q: "r / ulp r = of_int n" using assms(4) by (simp add: u)
  have "nearest_double r = of_int n * ulp r"
    using nz by (simp add: nearest_double_def q round_half_even_of_int)
  also have "\<dots> = r" using assms(4) [symmetric] by (simp add: u)
  finally show ?thesis .
qed

lemma is_float_to_float: "is_float v \<Longrightarrow> to_float (Some v) = Inr (Some v)"
  by (cases v) (simp_all add: is_float_def to_float_def)

lemma to_float_Finite:
  "to_float (Some (Finite r)) = Inr value \<Longrightarrow> value = Some (Finite (nearest_double r))"
  by (simp add: to_float_def split: if_splits)

lemma is_float_24_5: "is_float (Finite (49 / 2))"
proof -
  have "nearest_double (49 / 2) = 49 / 2"
    by (rule nearest_double_exact [where k = 4 and n = "49 * 2 ^ 47"]) simp_all
  then show ?thesis by (simp add: is_float_def)
qed

lemma is_float_30: "is_float (Finite 30)"
proof -
  have "nearest_double 30 = 30"
    by (rule nearest_double_exact [where k = 4 and n = "30 * 2 ^ 48"]) simp_all
  then show ?thesis by (simp add: is_float_def)
qed

lemma is_float_10: "is_float (Finite 10)"
proof -
  have "nearest_double 10 = 10"
    by (rule nearest_double_exact [where k = 3 and n = "10 * 2 ^ 49"]) simp_all
  then show ?thesis by (simp add: is_float_def)
qed

lemma is_float_20: "is_float (Finite 20)"
proof -
  have "nearest_double 20 = 20"
    by (rule nearest_double_exact [where k = 4 and n = "20 * 2 ^ 48"]) simp_all
  then show ?thesis by (simp add: is_float_def)
qed

lemma nearest_double_no_double: "nearest_double no_double = 9007199254740996"
proof -
  have "exponent 9007199254740995 = int 53"
    by (rule exponent_eq) simp_all
  then have u: "ulp 9007199254740995 = 2" by (simp add: ulp_def)
  have "round_half_even (9007199254740995 / 2) = 4503599627370498"
    by (simp add: round_half_even_def Let_def)
  then show ?thesis by (simp add: nearest_double_def no_double_def u)
qed

lemma to_float_no_double:
  "to_float (Some (Finite no_double)) = Inr (Some (Finite 9007199254740996))"
  by (simp add: to_float_def nearest_double_no_double)

lemma int64_1: "int64 1"
  by (simp add: int64_def)

lemma not_int64_too_large: "\<not> int64 too_large"
  by (simp add: int64_def too_large_def)

section \<open>What each operation does to the database\<close>

lemma store_packet_eq:
  "store_packet d feeder_id data =
     (case to_float (celsius data) of
        Inl e \<Rightarrow> (Inl e, d)
      | Inr value \<Rightarrow>
         (case temps_tbl d of
            None \<Rightarrow> (Inl (OperationalError ''no such table: temps''), d)
          | Some rows \<Rightarrow>
              if \<not> int64 feeder_id
                then (Inl (OverflowError ''Python int too large to convert to SQLite INTEGER''), d)
              else if ts data = None
                then (Inl (IntegrityError ''NOT NULL constraint failed: temps.ts''), d)
              else (Inr (), d\<lparr>temps_tbl := Some (rows @
                     [\<lparr>temps_id = next_id rows, temps_feeder_id = Some feeder_id,
                       temps_ts = ts data, temps_celsius = sqlite_real value,
                       temps_condition = condition data\<rparr>])\<rparr>)))"
  by (auto simp add: Let_def store_packet_def engine_begin_def execute_insert_def connect_def
      commit_def rollback_def split: option.splits sum.splits)

lemma store_packet_Inr:
  assumes "store_packet d feeder_id data = (Inr (), d')"
  shows "\<exists>rows value. temps_tbl d = Some rows \<and> int64 feeder_id \<and> ts data \<noteq> None \<and>
           to_float (celsius data) = Inr value \<and>
           d' = d\<lparr>temps_tbl := Some (rows @
                     [\<lparr>temps_id = next_id rows, temps_feeder_id = Some feeder_id,
                       temps_ts = ts data, temps_celsius = sqlite_real value,
                       temps_condition = condition data\<rparr>])\<rparr>"
  using assms by (auto simp add: store_packet_eq split: option.splits sum.splits if_splits)


lemma create_all_eq:
  "create_all d = \<lparr>feeders_tbl = Some (feeders_rows d), temps_tbl = Some (temps_rows d)\<rparr>"
  by (cases d) (auto simp add: Let_def create_all_def connect_def commit_def has_table_def
      table_names_def metadata_def create_table_def feeders_rows_def temps_rows_def
      split: option.splits)

lemma low_by_date_eq:
  "low_by_date d today1 today2 feeder (Some x) =
     (case temps_tbl d of
        None \<Rightarrow> (Inl (OperationalError ''no such table: temps''), d)
      | Some rows \<Rightarrow>
          if \<not> int64 feeder
            then (Inl (OverflowError ''Python int too large to convert to SQLite INTEGER''), d)
          else (Inr (func_min (map temps_celsius
            (filter (where_clause feeder (combine x time_min) (combine x time_max)) rows))), d))"
  by (simp add: Let_def low_by_date_def engine_connect_def execute_select_min_def connect_def
      rollback_def split: option.splits)

lemma store_notebook_packet: "store_packet fresh_db 1 notebook_packet = (Inr (), stored_db)"
  by (simp add: store_packet_eq fresh_db_def create_all_eq empty_db_def feeders_rows_def
      temps_rows_def next_id_def notebook_packet_def stored_db_def int64_1
      is_float_to_float [OF is_float_24_5] sqlite_real_def)

lemma reachable_stored_db: "reachable stored_db"
proof -
  have "reachable fresh_db" unfolding fresh_db_def by (intro reachable.intros)
  then have "reachable (snd (store_packet fresh_db 1 notebook_packet))"
    by (rule reachable_store_packet)
  then show ?thesis by (simp add: store_notebook_packet)
qed

section \<open>The aggregate\<close>

lemma non_null_Nil: "non_null [] = {}"
  by (simp add: non_null_def)

lemma non_null_None: "non_null (None # vs) = non_null vs"
  by (auto simp add: non_null_def)

lemma non_null_Some: "non_null (Some c # vs) = insert c (non_null vs)"
  by (auto simp add: non_null_def)

lemma finite_non_null: "finite (non_null vs)"
proof -
  have "non_null vs \<subseteq> the ` set vs" by (force simp add: non_null_def)
  then show ?thesis by (rule finite_subset) simp
qed


lemma foldl_min_step_Some:
  "foldl min_step (Some a) vs = Some (Min (insert a (non_null vs)))"
proof (induction vs arbitrary: a)
  case Nil
  then show ?case by (simp add: non_null_Nil)
next
  case (Cons v vs)
  show ?case
  proof (cases v)
    case None
    then show ?thesis using Cons by (simp add: non_null_None)
  next
    case (Some c)
    have "Min (insert (min a c) (non_null vs)) = Min (insert a (insert c (non_null vs)))"
      using finite_non_null [of vs] by (cases "non_null vs = {}") (simp_all add: min.assoc)
    then show ?thesis using Some Cons by (simp add: non_null_Some)
  qed
qed

lemma func_min_eq:
  "func_min vs = (if non_null vs = {} then None else Some (Min (non_null vs)))"
proof (induction vs)
  case Nil
  then show ?case by (simp add: func_min_def non_null_Nil)
next
  case (Cons v vs)
  show ?case
  proof (cases v)
    case None
    then show ?thesis using Cons by (simp add: func_min_def non_null_None)
  next
    case (Some c)
    then show ?thesis by (simp add: func_min_def non_null_Some foldl_min_step_Some)
  qed
qed

section \<open>The bounds of a day\<close>

lemma date_key_inj: "date_key a = date_key b \<Longrightarrow> a = b"
  by (cases a; cases b) (simp add: date_key_def)

lemma between_date_of:
  assumes "between x (combine D t1) (combine D t2)"
  shows "date_of x = D"
proof -
  have "date_key D \<le> date_key (date_of x)" and "date_key (date_of x) \<le> date_key D"
    using assms by (auto simp add: between_def datetime_le_def datetime_key_def combine_def)
  then show ?thesis by (intro date_key_inj) simp
qed

lemma between_same_day:
  "valid_time (time_of x) \<Longrightarrow> between x (combine (date_of x) time_min) (combine (date_of x) time_max)"
  by (simp add: between_def datetime_le_def datetime_key_def time_key_def
      combine_def time_min_def time_max_def valid_time_def)

lemma next_day_neq: "next_day D = Some D' \<Longrightarrow> D' \<noteq> D"
  by (cases D) (auto simp add: next_day_def split: if_splits)

lemma where_clause_day:
  "where_clause f (combine x time_min) (combine x time_max) r \<longleftrightarrow>
     temps_feeder_id r = Some f \<and>
     (\<exists>t. temps_ts r = Some t \<and> datetime_le (start_of_day x) t \<and> datetime_le t (end_of_day x))"
  by (simp add: where_clause_def between_def start_of_day_def end_of_day_def combine_def
      time_min_def time_max_def split: option.splits)

lemma selected_values:
  assumes "temps_tbl d = Some rows"
  shows "non_null (map temps_celsius
           (filter (where_clause f (combine x time_min) (combine x time_max)) rows))
         = celsius_values d f x"
proof -
  have rows: "temps_rows d = rows" using assms by (simp add: temps_rows_def)
  have "celsius_values d f x =
      {c. \<exists>r\<in>set rows. where_clause f (combine x time_min) (combine x time_max) r \<and>
            temps_celsius r = Some c}"
    by (auto simp add: celsius_values_def where_clause_day rows)
  also have "\<dots> = non_null (map temps_celsius
           (filter (where_clause f (combine x time_min) (combine x time_max)) rows))"
    by (force simp add: non_null_def image_iff)
  finally show ?thesis by simp
qed

lemma finite_celsius_values: "finite (celsius_values d f x)"
proof (cases "temps_tbl d")
  case None
  then show ?thesis by (simp add: celsius_values_def temps_rows_def)
next
  case (Some rows)
  then show ?thesis using finite_non_null selected_values [OF Some, symmetric] by simp
qed

lemma low_by_date_Min:
  assumes "temps_tbl d = Some rows" and "int64 f"
  shows "low_by_date d today1 today2 f (Some x) =
     (Inr (if celsius_values d f x = {} then None else Some (Min (celsius_values d f x))), d)"
  using assms by (simp add: low_by_date_eq func_min_eq selected_values [OF assms(1)])

lemma celsius_values_member:
  assumes "temps_tbl d = Some rows" and "r \<in> set rows"
    and "temps_feeder_id r = Some f" and "temps_ts r = Some T" and "valid_time (time_of T)"
    and "temps_celsius r = Some C"
  shows "C \<in> celsius_values d f (date_of T)"
proof -
  have "between T (combine (date_of T) time_min) (combine (date_of T) time_max)"
    using assms(5) by (rule between_same_day)
  then have "where_clause f (combine (date_of T) time_min) (combine (date_of T) time_max) r"
    using assms(3,4) by (simp add: where_clause_def)
  then have "C \<in> non_null (map temps_celsius
       (filter (where_clause f (combine (date_of T) time_min) (combine (date_of T) time_max)) rows))"
    using assms(2,6) by (force simp add: non_null_def image_iff)
  then show ?thesis by (simp add: selected_values [OF assms(1)])
qed

lemma store_packet_values:
  assumes "temps_tbl d = Some rows" and "valid_time t" and "int64 f" and "is_float (Finite c)"
  shows "\<exists>rows'. temps_tbl (snd (store_packet d f
            \<lparr>ts = Some (combine x t), celsius = Some (Finite c), condition = k\<rparr>)) = Some rows'"
    and "celsius_values (snd (store_packet d f
            \<lparr>ts = Some (combine x t), celsius = Some (Finite c), condition = k\<rparr>)) f x
          = insert c (celsius_values d f x)"
proof -
  let ?r = "\<lparr>temps_id = next_id rows, temps_feeder_id = Some f, temps_ts = Some (combine x t),
             temps_celsius = Some c, temps_condition = k\<rparr>"
  let ?d' = "snd (store_packet d f
      \<lparr>ts = Some (combine x t), celsius = Some (Finite c), condition = k\<rparr>)"
  have d': "temps_tbl ?d' = Some (rows @ [?r])"
    using assms(1,3) by (simp add: store_packet_eq is_float_to_float [OF assms(4)] sqlite_real_def)
  then show "\<exists>rows'. temps_tbl ?d' = Some rows'" by simp
  have "valid_time (time_of (combine x t))" using assms(2) by (simp add: combine_def)
  from between_same_day [OF this]
  have "where_clause f (combine x time_min) (combine x time_max) ?r"
    by (simp add: where_clause_def combine_def)
  then have "non_null (map temps_celsius
        (filter (where_clause f (combine x time_min) (combine x time_max)) (rows @ [?r])))
      = insert c (non_null (map temps_celsius
        (filter (where_clause f (combine x time_min) (combine x time_max)) rows)))"
    by (auto simp add: non_null_def)
  then show "celsius_values ?d' f x = insert c (celsius_values d f x)"
    by (simp add: selected_values [OF d', symmetric] selected_values [OF assms(1), symmetric])
qed

lemma filter_removeAll:
  "\<not> P r \<Longrightarrow> filter P (removeAll r rows) = filter P rows"
  by (induction rows) auto

section \<open>Ingest is atomic\<close>

text \<open>
  C1. Every call of \<open>store_packet\<close> either succeeds, its transaction is committed and
  the \<^verbatim>\<open>temps\<close> table holds exactly one row more (the old rows, then the new one with
  the values of the call; the \<^verbatim>\<open>feeders\<close> table as before), or it fails, its
  transaction is rolled back and the database is what it was.
\<close>

theorem store_packet_atomic:
  "(\<exists>c'. execute_insert feeder_id data (connect d) = Inr c' \<and>
         store_packet d feeder_id data = (Inr (), commit c') \<and>
         feeders_tbl (commit c') = feeders_tbl d \<and>
         (\<exists>rows r value. temps_tbl d = Some rows \<and> temps_tbl (commit c') = Some (rows @ [r]) \<and>
            temps_feeder_id r = Some feeder_id \<and> temps_ts r = ts data \<and>
            to_float (celsius data) = Inr value \<and> temps_celsius r = sqlite_real value \<and>
            temps_condition r = condition data))
   \<or> (\<exists>e. execute_insert feeder_id data (connect d) = Inl e \<and>
         store_packet d feeder_id data = (Inl e, rollback (connect d)) \<and>
         rollback (connect d) = d)"
  by (auto simp add: Let_def store_packet_def engine_begin_def execute_insert_def connect_def
      commit_def rollback_def split: option.splits sum.splits)

theorem store_packet_atomic_witness:
  "store_packet fresh_db 1 notebook_packet = (Inr (), stored_db) \<and>
   (\<exists>c'. execute_insert 1 notebook_packet (connect fresh_db) = Inr c' \<and> commit c' = stored_db) \<and>
   execute_insert 1 notebook_packet (connect empty_db) = Inl (OperationalError ''no such table: temps'') \<and>
   store_packet empty_db 1 notebook_packet = (Inl (OperationalError ''no such table: temps''), empty_db)"
proof -
  have a: "store_packet fresh_db 1 notebook_packet = (Inr (), stored_db)"
    by (rule store_notebook_packet)
  have b: "execute_insert 1 notebook_packet (connect empty_db)
      = Inl (OperationalError ''no such table: temps'')"
    by (simp add: execute_insert_def connect_def empty_db_def notebook_packet_def
        is_float_to_float [OF is_float_24_5])
  show ?thesis
    using store_packet_atomic [of 1 notebook_packet fresh_db]
      store_packet_atomic [of 1 notebook_packet empty_db] a b
    by auto
qed

section \<open>Foreign keys are not checked\<close>

text \<open>
  Only a connection whose pragma is on refuses a row that names an unknown feeder, and
  the engine never hands out such a connection.
\<close>

lemma execute_insert_foreign_keys_on:
  assumes "temps_tbl (current c) = Some rows" and "ts data \<noteq> None"
      and "to_float (celsius data) = Inr value" and "int64 feeder_id"
      and "foreign_keys c" and "\<not> feeder_exists (current c) feeder_id"
  shows "execute_insert feeder_id data c = Inl (IntegrityError ''FOREIGN KEY constraint failed'')"
  using assms by (simp add: execute_insert_def)

lemma foreign_keys_connect: "\<not> foreign_keys (connect d)"
  by (simp add: connect_def)




section \<open>The query returns the minimum\<close>

text \<open>
  C3. When the \<^verbatim>\<open>temps\<close> table exists, \<open>low_by_date\<close> for a feeder \<open>f\<close> (an integer that
  the store can hold, as every stored \<open>feeder_id\<close> is) and a date \<open>x\<close> returns the minimum
  of the celsius values of the stored readings of \<open>f\<close> whose timestamp lies between the
  start and the end of day \<open>x\<close> (and \<^verbatim>\<open>None\<close> when there is no such value). In
  particular, after readings with the values 30, 10 and 20 have been stored for one feeder
  and one day that had no value before, it returns 10.
\<close>

theorem low_by_date_minimum:
  assumes "temps_tbl d = Some rows" and "int64 f"
  shows "low_by_date d today1 today2 f (Some x) =
           (Inr (if celsius_values d f x = {} then None else Some (Min (celsius_values d f x))), d)
       \<and> (\<forall>t1 t2 t3 k1 k2 k3.
            valid_time t1 \<and> valid_time t2 \<and> valid_time t3 \<and> celsius_values d f x = {} \<longrightarrow>
            fst (low_by_date
              (snd (store_packet
                (snd (store_packet
                  (snd (store_packet d f
                    \<lparr>ts = Some (combine x t1), celsius = Some (Finite 30), condition = k1\<rparr>))
                  f \<lparr>ts = Some (combine x t2), celsius = Some (Finite 10), condition = k2\<rparr>))
                f \<lparr>ts = Some (combine x t3), celsius = Some (Finite 20), condition = k3\<rparr>))
              today1 today2 f (Some x)) = Inr (Some 10))"
proof (intro conjI allI impI)
  show "low_by_date d today1 today2 f (Some x) =
      (Inr (if celsius_values d f x = {} then None else Some (Min (celsius_values d f x))), d)"
    using assms by (rule low_by_date_Min)
next
  fix t1 t2 t3 k1 k2 k3
  assume h: "valid_time t1 \<and> valid_time t2 \<and> valid_time t3 \<and> celsius_values d f x = {}"
  let ?d1 = "snd (store_packet d f
      \<lparr>ts = Some (combine x t1), celsius = Some (Finite 30), condition = k1\<rparr>)"
  let ?d2 = "snd (store_packet ?d1 f
      \<lparr>ts = Some (combine x t2), celsius = Some (Finite 10), condition = k2\<rparr>)"
  let ?d3 = "snd (store_packet ?d2 f
      \<lparr>ts = Some (combine x t3), celsius = Some (Finite 20), condition = k3\<rparr>)"
  from h have v1: "valid_time t1" and v2: "valid_time t2" and v3: "valid_time t3"
    and e: "celsius_values d f x = {}" by simp_all
  obtain rows1 where r1: "temps_tbl ?d1 = Some rows1"
    using store_packet_values(1) [OF assms(1) v1 assms(2) is_float_30] by blast
  have c1: "celsius_values ?d1 f x = {30}"
    using store_packet_values(2) [OF assms(1) v1 assms(2) is_float_30, of x k1] e by simp
  obtain rows2 where r2: "temps_tbl ?d2 = Some rows2"
    using store_packet_values(1) [OF r1 v2 assms(2) is_float_10] by blast
  have c2: "celsius_values ?d2 f x = {10, 30}"
    using store_packet_values(2) [OF r1 v2 assms(2) is_float_10, of x k2] c1 by simp
  obtain rows3 where r3: "temps_tbl ?d3 = Some rows3"
    using store_packet_values(1) [OF r2 v3 assms(2) is_float_20] by blast
  have c3: "celsius_values ?d3 f x = {20, 10, 30}"
    using store_packet_values(2) [OF r2 v3 assms(2) is_float_20, of x k3] c2 by simp
  show "fst (low_by_date ?d3 today1 today2 f (Some x)) = Inr (Some 10)"
    by (simp add: low_by_date_Min [OF r3 assms(2)] c3)
qed

theorem low_by_date_minimum_witness:
  "temps_tbl fresh_db = Some [] \<and> int64 1 \<and> valid_time a_time \<and>
   celsius_values fresh_db 1 a_day = {} \<and>
   low_by_date fresh_db a_day a_day 1 (Some a_day) = (Inr None, fresh_db) \<and>
   fst (low_by_date
     (snd (store_packet
       (snd (store_packet
         (snd (store_packet fresh_db 1
           \<lparr>ts = Some (combine a_day a_time), celsius = Some (Finite 30), condition = None\<rparr>))
         1 \<lparr>ts = Some (combine a_day a_time), celsius = Some (Finite 10), condition = None\<rparr>))
       1 \<lparr>ts = Some (combine a_day a_time), celsius = Some (Finite 20), condition = None\<rparr>))
     a_day a_day 1 (Some a_day)) = Inr (Some 10)"
proof -
  have t: "temps_tbl fresh_db = Some []"
    by (simp add: fresh_db_def create_all_eq empty_db_def temps_rows_def)
  have v: "valid_time a_time" by (simp add: a_time_def valid_time_def)
  have e: "celsius_values fresh_db 1 a_day = {}"
    by (simp add: celsius_values_def temps_rows_def t)
  note th = low_by_date_minimum [OF t int64_1, of a_day a_day a_day]
  have "valid_time a_time \<and> valid_time a_time \<and> valid_time a_time \<and>
      celsius_values fresh_db 1 a_day = {}"
    using v e by simp
  from th [THEN conjunct2, rule_format, OF this, of None None None] th [THEN conjunct1] t v e
    int64_1
  show ?thesis by simp
qed

section \<open>The boundary between two days\<close>

text \<open>
  C4. Let \<open>D'\<close> be the day after \<open>D\<close>. A stored reading \<open>r1\<close> of feeder \<open>f\<close> taken within
  the second 23:59:59 of day \<open>D\<close> is aggregated by \<open>low_by_date\<close> for \<open>f\<close> and \<open>D\<close>: the
  result is a number, at most the temperature of \<open>r1\<close>. It is not aggregated by
  \<open>low_by_date\<close> for \<open>f\<close> and \<open>D'\<close>: the result is the same with \<open>r1\<close> removed from the
  table. A reading \<open>r2\<close> taken at 00:00:00 of day \<open>D'\<close> is not aggregated by
  \<open>low_by_date\<close> for \<open>f\<close> and \<open>D\<close>: the result is the same with \<open>r2\<close> removed.
\<close>

theorem day_boundary:
  assumes "next_day D = Some D'" and "us \<le> 999999" and "int64 f"
      and "temps_tbl d = Some rows" and "r1 \<in> set rows"
      and "temps_feeder_id r1 = Some f" and "temps_ts r1 = Some (combine D (last_second us))"
      and "temps_celsius r1 = Some c1"
      and "temps_ts r2 = Some (combine D' time_min)"
  shows "(\<exists>m. low_by_date d today1 today2 f (Some D) = (Inr (Some m), d) \<and> m \<le> c1) \<and>
         fst (low_by_date (d\<lparr>temps_tbl := Some (removeAll r1 rows)\<rparr>) today1 today2 f (Some D'))
           = fst (low_by_date d today1 today2 f (Some D')) \<and>
         fst (low_by_date (d\<lparr>temps_tbl := Some (removeAll r2 rows)\<rparr>) today1 today2 f (Some D))
           = fst (low_by_date d today1 today2 f (Some D))"
proof (intro conjI)
  have neq: "D' \<noteq> D" using assms(1) by (rule next_day_neq)
  have v: "valid_time (time_of (combine D (last_second us)))"
    using assms(2) by (simp add: combine_def last_second_def valid_time_def)
  have "c1 \<in> celsius_values d f (date_of (combine D (last_second us)))"
    using assms(4,5,6,7) v assms(8) by (rule celsius_values_member)
  then have mem: "c1 \<in> celsius_values d f D" by (simp add: combine_def)
  then have "Min (celsius_values d f D) \<le> c1"
    using finite_celsius_values by (simp add: Min_le)
  then show "\<exists>m. low_by_date d today1 today2 f (Some D) = (Inr (Some m), d) \<and> m \<le> c1"
    using mem by (auto simp add: low_by_date_Min [OF assms(4,3)])
  have out1: "\<not> where_clause f (combine D' time_min) (combine D' time_max) r1"
  proof
    assume "where_clause f (combine D' time_min) (combine D' time_max) r1"
    then have "between (combine D (last_second us)) (combine D' time_min) (combine D' time_max)"
      using assms(7) by (simp add: where_clause_def)
    then have "date_of (combine D (last_second us)) = D'" by (rule between_date_of)
    then show False using neq by (simp add: combine_def)
  qed
  show "fst (low_by_date (d\<lparr>temps_tbl := Some (removeAll r1 rows)\<rparr>) today1 today2 f (Some D'))
      = fst (low_by_date d today1 today2 f (Some D'))"
    using assms(3,4) by (simp add: low_by_date_eq filter_removeAll [of "where_clause f (combine D' time_min) (combine D' time_max)" r1, OF out1])
  have out2: "\<not> where_clause f (combine D time_min) (combine D time_max) r2"
  proof
    assume "where_clause f (combine D time_min) (combine D time_max) r2"
    then have "between (combine D' time_min) (combine D time_min) (combine D time_max)"
      using assms(9) by (simp add: where_clause_def)
    then have "date_of (combine D' time_min) = D" by (rule between_date_of)
    then show False using neq by (simp add: combine_def)
  qed
  show "fst (low_by_date (d\<lparr>temps_tbl := Some (removeAll r2 rows)\<rparr>) today1 today2 f (Some D))
      = fst (low_by_date d today1 today2 f (Some D))"
    using assms(3,4) by (simp add: low_by_date_eq filter_removeAll [of "where_clause f (combine D time_min) (combine D time_max)" r2, OF out2])
qed

theorem day_boundary_witness:
  "next_day a_day = Some next_of_a_day \<and> int64 1 \<and>
   low_by_date
     \<lparr>feeders_tbl = Some [], temps_tbl = Some
        [a_row 1 1 (combine a_day (last_second 0)) (Some 5),
         a_row 2 1 (combine next_of_a_day time_min) (Some 3)]\<rparr>
     a_day a_day 1 (Some a_day)
   = (Inr (Some 5),
     \<lparr>feeders_tbl = Some [], temps_tbl = Some
        [a_row 1 1 (combine a_day (last_second 0)) (Some 5),
         a_row 2 1 (combine next_of_a_day time_min) (Some 3)]\<rparr>) \<and>
   fst (low_by_date
     \<lparr>feeders_tbl = Some [], temps_tbl = Some
        [a_row 2 1 (combine next_of_a_day time_min) (Some 3)]\<rparr>
     a_day a_day 1 (Some next_of_a_day))
   = fst (low_by_date
     \<lparr>feeders_tbl = Some [], temps_tbl = Some
        [a_row 1 1 (combine a_day (last_second 0)) (Some 5),
         a_row 2 1 (combine next_of_a_day time_min) (Some 3)]\<rparr>
     a_day a_day 1 (Some next_of_a_day))"
proof -
  let ?r1 = "a_row 1 1 (combine a_day (last_second 0)) (Some 5)"
  let ?r2 = "a_row 2 1 (combine next_of_a_day time_min) (Some 3)"
  let ?d = "\<lparr>feeders_tbl = Some [], temps_tbl = Some [?r1, ?r2]\<rparr>"
  have n: "next_day a_day = Some next_of_a_day"
    by (simp add: next_day_def a_day_def next_of_a_day_def days_in_month_def)
  have ne: "?r1 \<noteq> ?r2" by (simp add: a_row_def)
  note th = day_boundary [OF n, of 0 1 ?d "[?r1, ?r2]" ?r1 5 ?r2 a_day a_day]
  have th': "(\<exists>m. low_by_date ?d a_day a_day 1 (Some a_day) = (Inr (Some m), ?d) \<and> m \<le> 5) \<and>
         fst (low_by_date (?d\<lparr>temps_tbl := Some (removeAll ?r1 [?r1, ?r2])\<rparr>) a_day a_day 1 (Some next_of_a_day))
           = fst (low_by_date ?d a_day a_day 1 (Some next_of_a_day)) \<and>
         fst (low_by_date (?d\<lparr>temps_tbl := Some (removeAll ?r2 [?r1, ?r2])\<rparr>) a_day a_day 1 (Some a_day))
           = fst (low_by_date ?d a_day a_day 1 (Some a_day))"
    by (rule th) (simp_all add: int64_1 a_row_def)
  have only: "low_by_date \<lparr>feeders_tbl = Some [], temps_tbl = Some [?r1]\<rparr> a_day a_day 1 (Some a_day)
      = (Inr (Some 5), \<lparr>feeders_tbl = Some [], temps_tbl = Some [?r1]\<rparr>)"
    by (simp add: low_by_date_eq int64_1 func_min_def where_clause_def a_row_def between_def
        datetime_le_def datetime_key_def time_key_def combine_def time_min_def time_max_def
        last_second_def)
  from th' only ne n int64_1 show ?thesis by auto
qed

section \<open>A stored reading bounds the minimum\<close>

text \<open>
  C5 as stated fails. The integer \<open>2 ^ 53 + 3\<close> is stored as the double next to it,
  \<open>2 ^ 53 + 4\<close>, which \<open>low_by_date\<close> then returns: a value above the one given. And
  after \<^verbatim>\<open>nan\<close> has been stored, as NULL, \<open>low_by_date\<close> returns \<^verbatim>\<open>None\<close>, not a value.
\<close>

theorem store_then_low_counterexample:
  "fst (store_packet fresh_db 1 (a_packet (Some (Finite no_double)))) = Inr () \<and>
   fst (low_by_date (snd (store_packet fresh_db 1 (a_packet (Some (Finite no_double)))))
      a_day a_day 1 (Some (date_of (combine a_day a_time)))) = Inr (Some 9007199254740996) \<and>
   no_double < 9007199254740996 \<and>
   fst (store_packet fresh_db 1 (a_packet (Some NaN))) = Inr () \<and>
   fst (low_by_date (snd (store_packet fresh_db 1 (a_packet (Some NaN))))
      a_day a_day 1 (Some (date_of (combine a_day a_time)))) = Inr None"
proof -
  have v: "between (combine a_day a_time) (combine a_day time_min) (combine a_day time_max)"
    using between_same_day [of "combine a_day a_time"]
    by (simp add: combine_def a_time_def valid_time_def)
  have t: "temps_tbl fresh_db = Some []"
    by (simp add: fresh_db_def create_all_eq empty_db_def temps_rows_def)
  have a: "store_packet fresh_db 1 (a_packet (Some (Finite no_double))) =
      (Inr (), fresh_db\<lparr>temps_tbl := Some [\<lparr>temps_id = 1, temps_feeder_id = Some 1,
         temps_ts = Some (combine a_day a_time), temps_celsius = Some 9007199254740996,
         temps_condition = None\<rparr>]\<rparr>)"
    by (simp add: store_packet_eq a_packet_def to_float_no_double t int64_1 sqlite_real_def
        next_id_def)
  have b: "store_packet fresh_db 1 (a_packet (Some NaN)) =
      (Inr (), fresh_db\<lparr>temps_tbl := Some [\<lparr>temps_id = 1, temps_feeder_id = Some 1,
         temps_ts = Some (combine a_day a_time), temps_celsius = None,
         temps_condition = None\<rparr>]\<rparr>)"
    by (simp add: store_packet_eq a_packet_def to_float_def t int64_1 sqlite_real_def next_id_def)
  have d: "date_of (combine a_day a_time) = a_day" by (simp add: combine_def)
  have lt: "no_double < 9007199254740996" by (simp add: no_double_def)
  show ?thesis
    by (simp add: a b d lt low_by_date_eq int64_1 func_min_def where_clause_def v)
qed

text \<open>
  C5, amended. After a successful \<open>store_packet\<close> of a reading with timestamp \<open>T\<close> and
  a temperature \<open>C\<close> other than \<^verbatim>\<open>nan\<close> for feeder \<open>f\<close>, \<open>low_by_date\<close> for \<open>f\<close> and the
  date of \<open>T\<close> returns a number, and that number is at most the double nearest to \<open>C\<close>,
  the value that was stored; it is at most \<open>C\<close> itself when \<open>C\<close> is a float.
\<close>

theorem store_then_low:
  assumes "store_packet d f \<lparr>ts = Some T, celsius = Some (Finite C), condition = k\<rparr> = (Inr (), d')"
      and "valid_time (time_of T)"
  shows "\<exists>m. low_by_date d' today1 today2 f (Some (date_of T)) = (Inr (Some m), d') \<and>
             m \<le> nearest_double C \<and> (is_float (Finite C) \<longrightarrow> m \<le> C)"
proof -
  from store_packet_Inr [OF assms(1)] obtain rows "value" where
    rows: "temps_tbl d = Some rows" and f: "int64 f" and
    tf: "to_float (Some (Finite C)) = Inr value" and
    d'0: "d' = d\<lparr>temps_tbl := Some (rows @
             [\<lparr>temps_id = next_id rows, temps_feeder_id = Some f, temps_ts = Some T,
               temps_celsius = sqlite_real value, temps_condition = k\<rparr>])\<rparr>"
    by auto
  let ?r = "\<lparr>temps_id = next_id rows, temps_feeder_id = Some f, temps_ts = Some T,
             temps_celsius = Some (nearest_double C), temps_condition = k\<rparr>"
  have "value = Some (Finite (nearest_double C))" using tf by (rule to_float_Finite)
  then have d': "temps_tbl d' = Some (rows @ [?r])"
    using d'0 by (simp add: sqlite_real_def)
  have mem: "nearest_double C \<in> celsius_values d' f (date_of T)"
    by (rule celsius_values_member [OF d', of ?r]) (simp_all add: assms(2))
  then have ne: "celsius_values d' f (date_of T) \<noteq> {}" by blast
  have le: "Min (celsius_values d' f (date_of T)) \<le> nearest_double C"
    using finite_celsius_values mem by (rule Min_le)
  have "is_float (Finite C) \<Longrightarrow> nearest_double C = C" by (simp add: is_float_def)
  then show ?thesis using ne le by (auto simp add: low_by_date_Min [OF d' f])
qed

theorem store_then_low_witness:
  "store_packet fresh_db 1 \<lparr>ts = Some (combine a_day a_time), celsius = Some (Finite (49 / 2)),
       condition = Some ''overcast''\<rparr> = (Inr (), stored_db) \<and>
   valid_time (time_of (combine a_day a_time)) \<and> is_float (Finite (49 / 2)) \<and>
   (\<exists>m. low_by_date stored_db a_day a_day 1 (Some a_day) = (Inr (Some m), stored_db) \<and> m \<le> 49 / 2)"
proof -
  have a: "store_packet fresh_db 1 \<lparr>ts = Some (combine a_day a_time),
       celsius = Some (Finite (49 / 2)), condition = Some ''overcast''\<rparr> = (Inr (), stored_db)"
    using store_notebook_packet by (simp add: notebook_packet_def)
  have b: "valid_time (time_of (combine a_day a_time))"
    by (simp add: combine_def a_time_def valid_time_def)
  have c: "date_of (combine a_day a_time) = a_day" by (simp add: combine_def)
  show ?thesis using store_then_low [OF a b, of a_day a_day] a b c is_float_24_5 by auto
qed

section \<open>No data\<close>

text \<open>
  C6 as stated fails: no reading matches the feeder \<open>2 ^ 63\<close> on any day, and
  \<open>low_by_date\<close> for that feeder raises \<^verbatim>\<open>OverflowError\<close> instead of returning \<^verbatim>\<open>None\<close>.
\<close>

theorem low_by_date_out_of_range_counterexample:
  "temps_tbl stored_db = Some (temps_rows stored_db) \<and>
   filter (where_clause too_large (combine a_day time_min) (combine a_day time_max))
     (temps_rows stored_db) = [] \<and>
   low_by_date stored_db a_day a_day too_large (Some a_day) =
     (Inl (OverflowError ''Python int too large to convert to SQLite INTEGER''), stored_db)"
proof -
  have t: "temps_tbl stored_db = Some (temps_rows stored_db)"
    by (simp add: stored_db_def temps_rows_def)
  have n: "filter (where_clause too_large (combine a_day time_min) (combine a_day time_max))
     (temps_rows stored_db) = []"
    by (simp add: stored_db_def temps_rows_def where_clause_def too_large_def)
  have "low_by_date stored_db a_day a_day too_large (Some a_day) =
     (Inl (OverflowError ''Python int too large to convert to SQLite INTEGER''), stored_db)"
    by (simp add: low_by_date_eq t not_int64_too_large)
  then show ?thesis using t n by simp
qed

text \<open>
  C6, amended. When the \<^verbatim>\<open>temps\<close> table exists, the feeder is an integer that the
  store can hold and no row matches the feeder within the day, \<open>low_by_date\<close> returns
  \<^verbatim>\<open>None\<close> and raises nothing. Nothing is asked of the \<^verbatim>\<open>feeders\<close> table: the feeder may
  be absent from it.
\<close>

theorem low_by_date_no_data:
  assumes "temps_tbl d = Some rows" and "int64 feeder"
      and "\<forall>r\<in>set rows. \<not> where_clause feeder (combine x time_min) (combine x time_max) r"
  shows "low_by_date d today1 today2 feeder (Some x) = (Inr None, d)"
proof -
  have "filter (where_clause feeder (combine x time_min) (combine x time_max)) rows = []"
    using assms(3) by (simp add: filter_empty_conv)
  then show ?thesis using assms(1,2) by (simp add: low_by_date_eq func_min_def)
qed

theorem low_by_date_no_data_witness:
  "temps_tbl stored_db = Some (temps_rows stored_db) \<and> length (temps_rows stored_db) = 1 \<and>
   int64 2 \<and> \<not> feeder_exists stored_db 2 \<and>
   low_by_date stored_db a_day a_day 2 (Some a_day) = (Inr None, stored_db)"
proof -
  have t: "temps_tbl stored_db = Some (temps_rows stored_db)"
    by (simp add: stored_db_def temps_rows_def)
  have i: "int64 2" by (simp add: int64_def)
  have n: "\<forall>r\<in>set (temps_rows stored_db).
      \<not> where_clause 2 (combine a_day time_min) (combine a_day time_max) r"
    by (simp add: stored_db_def temps_rows_def where_clause_def)
  have f: "\<not> feeder_exists stored_db 2"
    by (simp add: stored_db_def feeder_exists_def feeders_rows_def)
  show ?thesis using low_by_date_no_data [OF t i n, of a_day a_day] t f i
    by (simp add: stored_db_def temps_rows_def)
qed



section \<open>The invariant of the data model\<close>

lemma ts_not_null_create_all: "ts_not_null d \<Longrightarrow> ts_not_null (create_all d)"
  by (simp add: ts_not_null_def create_all_eq temps_rows_def)

lemma ts_not_null_store_packet: "ts_not_null d \<Longrightarrow> ts_not_null (snd (store_packet d feeder_id data))"
  by (auto simp add: ts_not_null_def store_packet_eq temps_rows_def split: option.splits sum.splits)

text \<open>
  C7, amended. In every database state that the program's operations produce, every row
  of \<^verbatim>\<open>temps\<close> has a timestamp that is not NULL. Nothing is claimed about \<open>feeder_id\<close>
  referencing a row of \<^verbatim>\<open>feeders\<close>: the store does not check it.
\<close>

theorem reachable_ts_not_null:
  assumes "reachable d"
  shows "ts_not_null d"
  using assms
proof (induction rule: reachable.induct)
  case reachable_empty
  show ?case by (simp add: ts_not_null_def empty_db_def temps_rows_def)
next
  case (reachable_create_all d)
  then show ?case by (simp add: ts_not_null_create_all)
next
  case (reachable_store_packet d feeder_id data)
  then show ?case by (simp add: ts_not_null_store_packet)
next
  case (reachable_low_by_date d today1 today2 feeder ts_start)
  then show ?case
    by (simp add: Let_def low_by_date_def engine_connect_def connect_def rollback_def)
qed

theorem reachable_ts_not_null_witness:
  "reachable stored_db \<and> length (temps_rows stored_db) = 1 \<and> ts_not_null stored_db"
  using reachable_ts_not_null [OF reachable_stored_db] reachable_stored_db
  by (simp add: stored_db_def temps_rows_def)

text \<open>
  C7 as stated fails: the database after \<open>create_all\<close> and the call of source line 170
  is reachable, and its one \<^verbatim>\<open>temps\<close> row names feeder 1 while \<^verbatim>\<open>feeders\<close> is empty.
\<close>

theorem referential_integrity_counterexample:
  "reachable stored_db \<and> \<not> references_one_feeder stored_db"
  using reachable_stored_db
  by (simp add: references_one_feeder_def stored_db_def temps_rows_def feeders_rows_def)

section \<open>Applying the catalog\<close>

text \<open>
  C8. \<open>create_all\<close> is idempotent: applying it twice gives the same database, and so
  the same table set, as applying it once. It creates the tables of the catalog that are
  missing, empty, and leaves a table that exists as it is, rows included.
\<close>

theorem create_all_idempotent:
  "create_all (create_all d) = create_all d \<and>
   table_names (create_all (create_all d)) = table_names (create_all d) \<and>
   table_names (create_all d) = table_names d \<union> set metadata \<and>
   (\<forall>rows. feeders_tbl d = Some rows \<longrightarrow> feeders_tbl (create_all d) = Some rows) \<and>
   (\<forall>rows. temps_tbl d = Some rows \<longrightarrow> temps_tbl (create_all d) = Some rows) \<and>
   (feeders_tbl d = None \<longrightarrow> feeders_tbl (create_all d) = Some []) \<and>
   (temps_tbl d = None \<longrightarrow> temps_tbl (create_all d) = Some [])"
  by (auto simp add: create_all_eq feeders_rows_def temps_rows_def table_names_def metadata_def)

theorem create_all_idempotent_witness:
  "feeders_tbl half_db = None \<and>
   temps_tbl half_db = Some [a_row 1 1 (combine a_day a_time) None] \<and>
   feeders_tbl (create_all half_db) = Some [] \<and>
   temps_tbl (create_all half_db) = Some [a_row 1 1 (combine a_day a_time) None] \<and>
   table_names half_db = {''temps''} \<and>
   table_names (create_all half_db) = {''feeders'', ''temps''} \<and>
   create_all (create_all half_db) = create_all half_db"
proof -
  have a: "feeders_tbl half_db = None" by (simp add: half_db_def)
  have b: "temps_tbl half_db = Some [a_row 1 1 (combine a_day a_time) None]" by (simp add: half_db_def)
  have c: "table_names half_db = {''temps''}" by (simp add: half_db_def table_names_def)
  show ?thesis using create_all_idempotent [of half_db] a b c
    by (auto simp add: metadata_def)
qed

section \<open>The query is read-only\<close>

text \<open>
  C9. For every feeder and date (given or defaulted), \<open>low_by_date\<close> performs no
  mutation: the database it leaves behind, both tables, is the database it was given,
  whether the query returns a value or raises.
\<close>

theorem low_by_date_no_mutation:
  "snd (low_by_date d today1 today2 feeder ts_start) = d"
  by (simp add: Let_def low_by_date_def engine_connect_def connect_def rollback_def)

end
